theory Spec2Isabelle
  imports Main
begin

section \<open>The Samplify API client (lib/client.go)\<close>

text \<open>
  A shallow embedding of \<^verbatim>\<open>lib/client.go\<close>: the client record, its constructor, the
  token acquisition \<^verbatim>\<open>requestAndParseToken\<close>, the dispatcher \<^verbatim>\<open>request\<close>, the
  parsing wrapper \<^verbatim>\<open>requestAndParseResponse\<close> and the endpoint methods built on it.

  The file calls into code that lives elsewhere: the transport \<^verbatim>\<open>sendRequest\<close>, the expiry
  test \<^verbatim>\<open>AccessTokenExpired\<close>, the clock \<^verbatim>\<open>time.Now\<close> and \<^verbatim>\<open>json.Unmarshal\<close>. They are
  parameters of the model, collected in the record \<open>deps\<close>; every theorem holds for
  all of them.
\<close>

subsection \<open>Data\<close>

text \<open>\<^verbatim>\<open>ClientOptions\<close>, lines 17-20.\<close>

record ClientOptions =
  APIBaseURL :: string
  AuthURL :: string

text \<open>\<^verbatim>\<open>TokenRequest\<close>: the three fields that \<^verbatim>\<open>NewClient\<close> fills in (lines 223-227).\<close>

record TokenRequest =
  ClientID :: string
  Username :: string
  Password :: string

text \<open>
  \<^verbatim>\<open>TokenResponse\<close>: the file reads \<^verbatim>\<open>AccessToken\<close> (line 190) and stores a pointer to
  the acquisition time in \<^verbatim>\<open>Acquired\<close> (line 213); \<open>None\<close> is the nil pointer. The
  expiry duration is the third component that section 3 of the specification lists for
  the access token. Instants are integers.
\<close>

record TokenResponse =
  AccessToken :: string
  ExpiresIn :: nat
  Acquired :: "int option"

text \<open>\<^verbatim>\<open>Client\<close>, lines 23-27.\<close>

record Client =
  Credentials :: TokenRequest
  Auth :: TokenResponse
  Options :: ClientOptions

text \<open>
  \<^verbatim>\<open>APIResponse\<close>: only its \<^verbatim>\<open>Body\<close> is read (lines 171, 176, 209).
\<close>

record APIResponse =
  Body :: string

text \<open>
  A Go \<^verbatim>\<open>error\<close> value that is not nil is either a (non-nil) \<^verbatim>\<open>*ErrorResponse\<close>, of
  which line 192 reads the field \<^verbatim>\<open>HTTPCode\<close>, or a value of another dynamic type
  (transport failures, JSON errors). The second argument of \<open>ErrorResponse\<close> stands
  for whatever else the structured error carries. A nil \<^verbatim>\<open>error\<close> is \<open>None\<close>.
\<close>

datatype error =
  ErrorResponse (HTTPCode: int) string
| OtherError string

text \<open>
  Request bodies. \<^verbatim>\<open>CreateUpdateProjectCriteria\<close> is read once, for its
  \<^verbatim>\<open>ExtProjectID\<close> (line 39); \<^verbatim>\<open>BuyProjectCriteria\<close> and \<^verbatim>\<open>LineItem\<close> are only handed
  on to the transport, so their content is one uninterpreted string. A pointer is an
  \<open>option\<close>.
\<close>

record CreateUpdateProjectCriteria =
  ExtProjectID :: string

datatype BuyProjectCriteria = BuyProjectCriteria string

datatype LineItem = LineItem string

datatype payload =
  NilBody
| TokenRequestBody TokenRequest
| ProjectBody "CreateUpdateProjectCriteria option"
| BuyBody "BuyProjectCriteria option list"
| LineItemBody "LineItem option"

text \<open>
  One call of \<^verbatim>\<open>sendRequest(host, method, url, accessToken, body)\<close>, and the place in
  the file that made it: line 205 (\<open>Acquisition\<close>) or lines 190 and 197
  (\<open>Resource\<close>). The trace lists the calls made so far, oldest first.
\<close>

record call =
  host :: string
  verb :: string
  path :: string
  accessToken :: string
  body :: payload

datatype site = Acquisition | Resource

type_synonym trace = "(site \<times> call) list"

text \<open>The response structs that the endpoint methods allocate.\<close>

datatype shape =
  ProjectResponse
| BuyProjectResponse
| CloseProjectResponse
| GetAllProjectsResponse
| ProjectReportResponse
| LineItemResponse
| ChangeLineItemStateResponse
| GetAllLineItemsResponse
| GetFeasibilityResponse
| GetCountriesResponse
| GetAttributesResponse
| GetSurveyTopicsResponse

text \<open>
  What \<^verbatim>\<open>client.go\<close> uses and does not define. The transport answers a call in the light
  of all calls made before it; the clock and the expiry test may depend on them as well.
  \<open>unmarshalToken b a\<close> is \<^verbatim>\<open>json.Unmarshal(b, &a)\<close> on a \<^verbatim>\<open>TokenResponse\<close>: the value of
  \<open>a\<close> afterwards and the error returned; \<open>unmarshalResult\<close> is the same on a
  result object of type \<open>'r\<close>, and \<open>zeroValue\<close> gives the zero value
  \<^verbatim>\<open>&T{}\<close> of each response struct.
\<close>

record 'r deps =
  sendRequest :: "trace \<Rightarrow> call \<Rightarrow> APIResponse option \<times> error option"
  timeNow :: "trace \<Rightarrow> int"
  AccessTokenExpired :: "trace \<Rightarrow> TokenResponse \<Rightarrow> bool"
  unmarshalToken :: "string \<Rightarrow> TokenResponse \<Rightarrow> TokenResponse \<times> error option"
  unmarshalResult :: "string \<Rightarrow> 'r \<Rightarrow> 'r \<times> error option"
  zeroValue :: "shape \<Rightarrow> 'r"

text \<open>
  A method either returns a value, or panics on a nil pointer (\<^verbatim>\<open>ar.Body\<close> with
  \<^verbatim>\<open>ar == nil\<close>, \<^verbatim>\<open>project.ExtProjectID\<close> with \<^verbatim>\<open>project == nil\<close>). Either way it
  leaves a state behind: the client, which the methods update in place through their
  pointer receiver, and the trace.
\<close>

type_synonym state = "Client \<times> trace"

datatype 'a outcome = Panic state | Returns 'a state

fun final :: "'a outcome \<Rightarrow> state" where
  "final (Panic s) = s"
| "final (Returns v s) = s"

subsection \<open>Constants and constructor\<close>

definition defaultAuthURL :: string where
  "defaultAuthURL = ''https://api.researchnow.com/auth/v1/token/password''"

definition defaultAPIBaseURL :: string where
  "defaultAPIBaseURL = ''https://api.researchnow.com/sample/v1''"

text \<open>The zero value \<^verbatim>\<open>TokenResponse{}\<close>, which is also the \<^verbatim>\<open>Auth\<close> of a new client.\<close>

definition emptyToken :: TokenResponse where
  "emptyToken = \<lparr>AccessToken = [], ExpiresIn = 0, Acquired = None\<rparr>"

text \<open>\<^verbatim>\<open>NewClient\<close>, lines 218-230; \<open>None\<close> is \<^verbatim>\<open>options == nil\<close>.\<close>

definition NewClient :: "string \<Rightarrow> string \<Rightarrow> string \<Rightarrow> ClientOptions option \<Rightarrow> Client" where
  "NewClient clientID username passsword options =
     (let options' = (case options of
                        None \<Rightarrow> \<lparr>APIBaseURL = defaultAPIBaseURL, AuthURL = defaultAuthURL\<rparr>
                      | Some opts \<Rightarrow> opts)
      in \<lparr>Credentials = \<lparr>ClientID = clientID, Username = username, Password = passsword\<rparr>,
          Auth = emptyToken,
          Options = options'\<rparr>)"

subsection \<open>Token acquisition and the dispatcher\<close>

text \<open>Calling the transport from a given place extends the trace by that call.\<close>

definition send ::
  "'r deps \<Rightarrow> site \<Rightarrow> call \<Rightarrow> trace \<Rightarrow> (APIResponse option \<times> error option) \<times> trace" where
  "send d k rq tr = (sendRequest d tr rq, tr @ [(k, rq)])"

text \<open>The calls that the file makes: line 205, and lines 190 and 197.\<close>

definition tokenCall :: "Client \<Rightarrow> call" where
  "tokenCall c =
     \<lparr>host = AuthURL (Options c), verb = ''POST'', path = [], accessToken = [],
      body = TokenRequestBody (Credentials c)\<rparr>"

definition resourceCall :: "Client \<Rightarrow> string \<Rightarrow> string \<Rightarrow> payload \<Rightarrow> call" where
  "resourceCall c method url bdy =
     \<lparr>host = APIBaseURL (Options c), verb = method, path = url,
      accessToken = AccessToken (Auth c), body = bdy\<rparr>"

text \<open>
  \<^verbatim>\<open>requestAndParseToken\<close>, lines 202-215. The log line has no effect on the client.
  When decoding fails, \<^verbatim>\<open>c.Auth\<close> keeps whatever the decoder wrote before it gave up.
\<close>

definition requestAndParseToken :: "'r deps \<Rightarrow> state \<Rightarrow> (error option) outcome" where
  "requestAndParseToken d s =
     (case s of (c, tr) \<Rightarrow>
        let t = timeNow d tr in
        (case send d Acquisition (tokenCall c) tr of
           ((ar, Some err), tr1) \<Rightarrow> Returns (Some err) (c, tr1)
         | ((None, None), tr1) \<Rightarrow> Panic (c, tr1)
         | ((Some a, None), tr1) \<Rightarrow>
             (case unmarshalToken d (Body a) (Auth c) of
                (auth1, Some err) \<Rightarrow> Returns (Some err) (c\<lparr>Auth := auth1\<rparr>, tr1)
              | (auth1, None) \<Rightarrow>
                  Returns None (c\<lparr>Auth := auth1\<lparr>Acquired := Some t\<rparr>\<rparr>, tr1))))"

text \<open>
  Lines 191-192: the type assertion succeeds on a structured error only, and its status
  is compared with \<^verbatim>\<open>http.StatusUnauthorized\<close>.
\<close>

definition StatusUnauthorized :: int where
  "StatusUnauthorized = 401"

fun unauthorized :: "error option \<Rightarrow> bool" where
  "unauthorized (Some (ErrorResponse code _)) = (code = StatusUnauthorized)"
| "unauthorized _ = False"

text \<open>\<^verbatim>\<open>request\<close>, lines 183-200.\<close>

definition request ::
  "'r deps \<Rightarrow> string \<Rightarrow> string \<Rightarrow> payload \<Rightarrow> state
     \<Rightarrow> (APIResponse option \<times> error option) outcome" where
  "request d method url bdy s =
     (case (if AccessTokenExpired d (snd s) (Auth (fst s))
            then requestAndParseToken d s
            else Returns None s) of
        Panic s1 \<Rightarrow> Panic s1
      | Returns (Some err) s1 \<Rightarrow> Returns (None, Some err) s1
      | Returns None (c1, tr1) \<Rightarrow>
          (case send d Resource (resourceCall c1 method url bdy) tr1 of
             ((ar, err), tr2) \<Rightarrow>
               if unauthorized err then
                 (case requestAndParseToken d (c1, tr2) of
                    Panic s3 \<Rightarrow> Panic s3
                  | Returns (Some err') s3 \<Rightarrow> Returns (None, Some err') s3
                  | Returns None (c3, tr3) \<Rightarrow>
                      (case send d Resource (resourceCall c3 method url bdy) tr3 of
                         (r, tr4) \<Rightarrow> Returns r (c3, tr4)))
               else Returns (ar, err) (c1, tr2)))"

text \<open>
  \<^verbatim>\<open>requestAndParseResponse\<close>, lines 167-181. The result object is an out-parameter:
  the value returned here pairs the error with the object as the method leaves it.
\<close>

definition requestAndParseResponse ::
  "'r deps \<Rightarrow> string \<Rightarrow> string \<Rightarrow> payload \<Rightarrow> 'r \<Rightarrow> state \<Rightarrow> (error option \<times> 'r) outcome" where
  "requestAndParseResponse d method url bdy resObj s =
     (case request d method url bdy s of
        Panic s1 \<Rightarrow> Panic s1
      | Returns (ar, Some err) s1 \<Rightarrow>
          (case ar of
             Some a \<Rightarrow> Returns (Some err, fst (unmarshalResult d (Body a) resObj)) s1
           | None \<Rightarrow> Returns (Some err, resObj) s1)
      | Returns (None, None) s1 \<Rightarrow> Panic s1
      | Returns (Some a, None) s1 \<Rightarrow>
          (case unmarshalResult d (Body a) resObj of
             (res1, err) \<Rightarrow> Returns (err, res1) s1))"

subsection \<open>Endpoint methods\<close>

text \<open>
  Every endpoint method ends in \<^verbatim>\<open>return res, err\<close>, where \<^verbatim>\<open>res\<close> is the address of
  the struct allocated in its first line: a pointer that is not nil (\<open>Some\<close>).
\<close>

definition returnRes :: "(error option \<times> 'r) outcome \<Rightarrow> ('r option \<times> error option) outcome" where
  "returnRes x = (case x of
                    Panic s \<Rightarrow> Panic s
                  | Returns (err, res) s \<Rightarrow> Returns (Some res, err) s)"

definition CreateProject ::
  "'r deps \<Rightarrow> CreateUpdateProjectCriteria option \<Rightarrow> state \<Rightarrow> ('r option \<times> error option) outcome" where
  "CreateProject d project s =
     returnRes (requestAndParseResponse d ''POST'' ''/projects'' (ProjectBody project)
                  (zeroValue d ProjectResponse) s)"

definition UpdateProject ::
  "'r deps \<Rightarrow> CreateUpdateProjectCriteria option \<Rightarrow> state \<Rightarrow> ('r option \<times> error option) outcome" where
  "UpdateProject d project s =
     (case project of
        None \<Rightarrow> Panic s
      | Some p \<Rightarrow>
          returnRes (requestAndParseResponse d ''POST'' (''/projects/'' @ ExtProjectID p)
                       (ProjectBody project) (zeroValue d ProjectResponse) s))"

definition BuyProject ::
  "'r deps \<Rightarrow> string \<Rightarrow> BuyProjectCriteria option list \<Rightarrow> state
     \<Rightarrow> ('r option \<times> error option) outcome" where
  "BuyProject d extProjectID buy s =
     returnRes (requestAndParseResponse d ''POST'' (''/projects/'' @ extProjectID @ ''/buy'')
                  (BuyBody buy) (zeroValue d BuyProjectResponse) s)"

definition CloseProject ::
  "'r deps \<Rightarrow> string \<Rightarrow> state \<Rightarrow> ('r option \<times> error option) outcome" where
  "CloseProject d extProjectID s =
     returnRes (requestAndParseResponse d ''POST'' (''/projects/'' @ extProjectID @ ''/close'')
                  NilBody (zeroValue d CloseProjectResponse) s)"

definition GetAllProjects :: "'r deps \<Rightarrow> state \<Rightarrow> ('r option \<times> error option) outcome" where
  "GetAllProjects d s =
     returnRes (requestAndParseResponse d ''GET'' ''/projects'' NilBody
                  (zeroValue d GetAllProjectsResponse) s)"

definition GetProjectBy ::
  "'r deps \<Rightarrow> string \<Rightarrow> state \<Rightarrow> ('r option \<times> error option) outcome" where
  "GetProjectBy d extProjectID s =
     returnRes (requestAndParseResponse d ''GET'' (''/projects/'' @ extProjectID)
                  NilBody (zeroValue d ProjectResponse) s)"

definition GetProjectReport ::
  "'r deps \<Rightarrow> string \<Rightarrow> state \<Rightarrow> ('r option \<times> error option) outcome" where
  "GetProjectReport d extProjectID s =
     returnRes (requestAndParseResponse d ''GET'' (''/projects/'' @ extProjectID @ ''/report'')
                  NilBody (zeroValue d ProjectReportResponse) s)"

definition AddLineItem ::
  "'r deps \<Rightarrow> string \<Rightarrow> LineItem option \<Rightarrow> state \<Rightarrow> ('r option \<times> error option) outcome" where
  "AddLineItem d extProjectID lineItem s =
     returnRes (requestAndParseResponse d ''POST'' (''/projects/'' @ extProjectID @ ''/lineItems'')
                  (LineItemBody lineItem) (zeroValue d LineItemResponse) s)"

definition UpdateLineItem ::
  "'r deps \<Rightarrow> string \<Rightarrow> string \<Rightarrow> LineItem option \<Rightarrow> state
     \<Rightarrow> ('r option \<times> error option) outcome" where
  "UpdateLineItem d extProjectID extLineItemID lineItem s =
     returnRes (requestAndParseResponse d ''POST''
                  (''/projects/'' @ extProjectID @ ''/lineItems/'' @ extLineItemID)
                  (LineItemBody lineItem) (zeroValue d LineItemResponse) s)"

text \<open>\<^verbatim>\<open>Action\<close> is formatted with \<^verbatim>\<open>%s\<close>: the action keyword as a string.\<close>

definition ChangeLineItemState ::
  "'r deps \<Rightarrow> string \<Rightarrow> string \<Rightarrow> string \<Rightarrow> state \<Rightarrow> ('r option \<times> error option) outcome" where
  "ChangeLineItemState d extProjectID extLineItemID action s =
     returnRes (requestAndParseResponse d ''POST''
                  (''/projects/'' @ extProjectID @ ''/lineItems/'' @ extLineItemID @ ''/'' @ action)
                  NilBody (zeroValue d ChangeLineItemStateResponse) s)"

definition GetAllLineItems ::
  "'r deps \<Rightarrow> string \<Rightarrow> state \<Rightarrow> ('r option \<times> error option) outcome" where
  "GetAllLineItems d extProjectID s =
     returnRes (requestAndParseResponse d ''GET'' (''/projects/'' @ extProjectID @ ''/lineItems'')
                  NilBody (zeroValue d GetAllLineItemsResponse) s)"

definition GetLineItemBy ::
  "'r deps \<Rightarrow> string \<Rightarrow> string \<Rightarrow> state \<Rightarrow> ('r option \<times> error option) outcome" where
  "GetLineItemBy d extProjectID extLineItemID s =
     returnRes (requestAndParseResponse d ''GET''
                  (''/projects/'' @ extProjectID @ ''/lineItems/'' @ extLineItemID)
                  NilBody (zeroValue d LineItemResponse) s)"

definition GetFeasibility ::
  "'r deps \<Rightarrow> string \<Rightarrow> state \<Rightarrow> ('r option \<times> error option) outcome" where
  "GetFeasibility d extProjectID s =
     returnRes (requestAndParseResponse d ''GET'' (''/projects/'' @ extProjectID @ ''/feasibility'')
                  NilBody (zeroValue d GetFeasibilityResponse) s)"

definition GetCountries :: "'r deps \<Rightarrow> state \<Rightarrow> ('r option \<times> error option) outcome" where
  "GetCountries d s =
     returnRes (requestAndParseResponse d ''GET'' ''/countries'' NilBody
                  (zeroValue d GetCountriesResponse) s)"

definition GetAttributes ::
  "'r deps \<Rightarrow> string \<Rightarrow> string \<Rightarrow> state \<Rightarrow> ('r option \<times> error option) outcome" where
  "GetAttributes d countryCode languageCode s =
     returnRes (requestAndParseResponse d ''GET''
                  (''/attributes/'' @ countryCode @ ''/'' @ languageCode)
                  NilBody (zeroValue d GetAttributesResponse) s)"

definition GetSurveyTopics :: "'r deps \<Rightarrow> state \<Rightarrow> ('r option \<times> error option) outcome" where
  "GetSurveyTopics d s =
     returnRes (requestAndParseResponse d ''GET'' ''/categories/surveyTopics'' NilBody
                  (zeroValue d GetSurveyTopicsResponse) s)"

text \<open>\<^verbatim>\<open>GetAuth\<close>, lines 159-165.\<close>

definition GetAuth :: "'r deps \<Rightarrow> state \<Rightarrow> (TokenResponse \<times> error option) outcome" where
  "GetAuth d s =
     (case requestAndParseToken d s of
        Panic s1 \<Rightarrow> Panic s1
      | Returns (Some err) s1 \<Rightarrow> Returns (emptyToken, Some err) s1
      | Returns None s1 \<Rightarrow> Returns (Auth (fst s1), None) s1)"

subsection \<open>Notions used in the statements\<close>

text \<open>Lines 184-189 of \<^verbatim>\<open>request\<close> on their own: the check that precedes the first send.\<close>

definition preflight :: "'r deps \<Rightarrow> state \<Rightarrow> (error option) outcome" where
  "preflight d s =
     (if AccessTokenExpired d (snd s) (Auth (fst s))
      then requestAndParseToken d s
      else Returns None s)"

text \<open>The calls that a method made: what it appended to the trace it started from.\<close>

definition issued :: "state \<Rightarrow> 'a outcome \<Rightarrow> trace" where
  "issued s out = drop (length (snd s)) (snd (final out))"

text \<open>
  What a method may do to the client: \<^verbatim>\<open>Credentials\<close> and \<^verbatim>\<open>Options\<close> stay as they
  were, and \<^verbatim>\<open>Auth\<close> differs only if line 205 was reached during the method.
\<close>

definition frame :: "state \<Rightarrow> 'a outcome \<Rightarrow> bool" where
  "frame s out =
     (Credentials (fst (final out)) = Credentials (fst s)
      \<and> Options (fst (final out)) = Options (fst s)
      \<and> (Auth (fst (final out)) = Auth (fst s)
           \<or> (Acquisition, tokenCall (fst s)) \<in> set (issued s out)))"

text \<open>
  The client that results from a list of calls when nothing but \<^verbatim>\<open>requestAndParseToken\<close>
  touches it: at each call made from line 205 the client becomes the one that
  \<^verbatim>\<open>requestAndParseToken\<close> leaves when run on the client and the trace of that moment,
  and a resource request leaves it as it is.
\<close>

fun replay :: "'r deps \<Rightarrow> Client \<Rightarrow> trace \<Rightarrow> trace \<Rightarrow> Client" where
  "replay d c tr [] = c"
| "replay d c tr ((Acquisition, rq) # rest) =
     replay d (fst (final (requestAndParseToken d (c, tr)))) (tr @ [(Acquisition, rq)]) rest"
| "replay d c tr ((Resource, rq) # rest) = replay d c (tr @ [(Resource, rq)]) rest"

text \<open>
  A method follows the acquisitions if the trace it leaves extends the one it started
  from and the client it leaves is the replay of the calls it made: every change of
  the client, \<^verbatim>\<open>Auth\<close> included, is one that \<^verbatim>\<open>requestAndParseToken\<close> made.
\<close>

definition replayed :: "'r deps \<Rightarrow> state \<Rightarrow> 'a outcome \<Rightarrow> bool" where
  "replayed d s out =
     (snd (final out) = snd s @ issued s out
      \<and> fst (final out) = replay d (fst s) (snd s) (issued s out))"

text \<open>The sixteen endpoint methods, in the order of the file.\<close>

definition endpoints ::
  "'r deps \<Rightarrow> CreateUpdateProjectCriteria option \<Rightarrow> BuyProjectCriteria option list
     \<Rightarrow> LineItem option \<Rightarrow> string \<Rightarrow> string \<Rightarrow> string \<Rightarrow> string \<Rightarrow> string \<Rightarrow> state
     \<Rightarrow> ('r option \<times> error option) outcome list" where
  "endpoints d project buy lineItem extProjectID extLineItemID action countryCode languageCode s =
     [CreateProject d project s,
      UpdateProject d project s,
      BuyProject d extProjectID buy s,
      CloseProject d extProjectID s,
      GetAllProjects d s,
      GetProjectBy d extProjectID s,
      GetProjectReport d extProjectID s,
      AddLineItem d extProjectID lineItem s,
      UpdateLineItem d extProjectID extLineItemID lineItem s,
      ChangeLineItemState d extProjectID extLineItemID action s,
      GetAllLineItems d extProjectID s,
      GetLineItemBy d extProjectID extLineItemID s,
      GetFeasibility d extProjectID s,
      GetCountries d s,
      GetAttributes d countryCode languageCode s,
      GetSurveyTopics d s]"

text \<open>The pointer that an endpoint method returns, if it returns, is not nil.\<close>

fun resultNonNil :: "('r option \<times> error option) outcome \<Rightarrow> bool" where
  "resultNonNil (Returns (res, err) s) = (res \<noteq> None)"
| "resultNonNil (Panic s) = True"

fun returnsNonNil :: "('r option \<times> error option) outcome \<Rightarrow> bool" where
  "returnsNonNil (Returns (Some res, err) s) = True"
| "returnsNonNil (Returns (None, err) s) = False"
| "returnsNonNil (Panic s) = False"

subsection \<open>Sample transports and clients\<close>

text \<open>
  Concrete parameters, on which the theorems below are exercised. The transport replays
  a list of answers, one per call, and refuses every further call. The clock starts at
  1000 and each call takes 100. The expiry test follows section 3 of the specification
  with margin 0: a token never acquired is expired, and otherwise it is expired when
  its lifetime, counted from the acquisition, has elapsed.
\<close>

definition sampleNow :: "trace \<Rightarrow> int" where
  "sampleNow tr = 1000 + 100 * int (length tr)"

definition sampleExpired :: "trace \<Rightarrow> TokenResponse \<Rightarrow> bool" where
  "sampleExpired tr tok =
     (case Acquired tok of
        None \<Rightarrow> True
      | Some t \<Rightarrow> t + int (ExpiresIn tok) \<le> sampleNow tr)"

text \<open>
  \<^verbatim>\<open>json.Unmarshal\<close> into a \<^verbatim>\<open>TokenResponse\<close> on three bodies: the empty object, which
  has no member to store and is no error, and two objects with a token and a lifetime.
  Every other body counts as malformed here.
\<close>

definition sampleUnmarshalToken :: "string \<Rightarrow> TokenResponse \<Rightarrow> TokenResponse \<times> error option" where
  "sampleUnmarshalToken b a =
     (if b = ''{}'' then (a, None)
      else if b = ''{\"access_token\":\"T1\",\"expires_in\":300}''
        then (a\<lparr>AccessToken := ''T1'', ExpiresIn := 300\<rparr>, None)
      else if b = ''{\"access_token\":\"T2\",\"expires_in\":300}''
        then (a\<lparr>AccessToken := ''T2'', ExpiresIn := 300\<rparr>, None)
      else (a, Some (OtherError ''invalid character'')))"

text \<open>
  Result objects are the list of members stored in them so far; the zero value has
  none. Again the empty object and two known bodies decode, the rest is malformed.
\<close>

definition sampleUnmarshalResult ::
  "string \<Rightarrow> (string \<times> string) list \<Rightarrow> (string \<times> string) list \<times> error option" where
  "sampleUnmarshalResult b res =
     (if b = ''{}'' then (res, None)
      else if b = ''{\"extProjectId\":\"p1\"}'' then ((''extProjectId'', ''p1'') # res, None)
      else if b = ''{\"detail\":\"denied\"}'' then ((''detail'', ''denied'') # res, None)
      else (res, Some (OtherError ''invalid character'')))"

definition refused :: "APIResponse option \<times> error option" where
  "refused = (None, Some (OtherError ''connection refused''))"

definition scripted :: "(APIResponse option \<times> error option) list \<Rightarrow> (string \<times> string) list deps" where
  "scripted answers =
     \<lparr>sendRequest = (\<lambda>tr rq. if length tr < length answers then answers ! length tr else refused),
      timeNow = sampleNow,
      AccessTokenExpired = sampleExpired,
      unmarshalToken = sampleUnmarshalToken,
      unmarshalResult = sampleUnmarshalResult,
      zeroValue = (\<lambda>k. [])\<rparr>"

definition ok :: "string \<Rightarrow> APIResponse option \<times> error option" where
  "ok b = (Some \<lparr>Body = b\<rparr>, None)"

definition status :: "int \<Rightarrow> string \<Rightarrow> APIResponse option \<times> error option" where
  "status code b = (Some \<lparr>Body = b\<rparr>, Some (ErrorResponse code b))"

text \<open>A client straight from the constructor, and one holding a token acquired at 900.\<close>

definition freshClient :: Client where
  "freshClient = NewClient ''id'' ''user'' ''secret'' None"

definition warmClient :: Client where
  "warmClient = freshClient\<lparr>Auth := \<lparr>AccessToken = ''T0'', ExpiresIn = 300, Acquired = Some 900\<rparr>\<rparr>"

text \<open>A body that carries the token T1, and the client once that token is stored at 1100.\<close>

definition tokenBody :: string where
  "tokenBody = ''{\"access_token\":\"T1\",\"expires_in\":300}''"

definition renewedClient :: Client where
  "renewedClient = warmClient\<lparr>Auth := \<lparr>AccessToken = ''T1'', ExpiresIn = 300, Acquired = Some 1100\<rparr>\<rparr>"

text \<open>
  An error body that the sample decoder accepts, the client after an acquisition whose
  answer carried no token, and the client after a first acquisition of T1 at 1000.
\<close>

definition deniedBody :: string where
  "deniedBody = ''{\"detail\":\"denied\"}''"

definition blankClient :: Client where
  "blankClient = freshClient\<lparr>Auth := \<lparr>AccessToken = [], ExpiresIn = 0, Acquired = Some 1000\<rparr>\<rparr>"

definition firstClient :: Client where
  "firstClient = freshClient\<lparr>Auth := \<lparr>AccessToken = ''T1'', ExpiresIn = 300, Acquired = Some 1000\<rparr>\<rparr>"

section \<open>Properties\<close>

subsection \<open>Auxiliary facts\<close>

lemmas sample_defs =
  scripted_def refused_def ok_def status_def sampleNow_def sampleExpired_def
  sampleUnmarshalToken_def sampleUnmarshalResult_def freshClient_def warmClient_def
  renewedClient_def tokenBody_def deniedBody_def blankClient_def firstClient_def
  NewClient_def emptyToken_def defaultAuthURL_def defaultAPIBaseURL_def

lemmas model_defs =
  requestAndParseToken_def send_def tokenCall_def resourceCall_def StatusUnauthorized_def
  preflight_def

lemmas endpoint_defs =
  CreateProject_def BuyProject_def CloseProject_def GetAllProjects_def GetProjectBy_def
  GetProjectReport_def AddLineItem_def UpdateLineItem_def ChangeLineItemState_def
  GetAllLineItems_def GetLineItemBy_def GetFeasibility_def GetCountries_def GetAttributes_def
  GetSurveyTopics_def

text \<open>Token acquisition makes exactly one call and leaves credentials and options alone.\<close>

lemma requestAndParseToken_trace:
  "snd (final (requestAndParseToken d (c, tr))) = tr @ [(Acquisition, tokenCall c)]"
  by (simp add: requestAndParseToken_def send_def Let_def split: prod.split option.split)

lemma requestAndParseToken_keeps:
  "Credentials (fst (final (requestAndParseToken d (c, tr)))) = Credentials c
   \<and> Options (fst (final (requestAndParseToken d (c, tr)))) = Options c"
  by (simp add: requestAndParseToken_def send_def Let_def split: prod.split option.split)

lemma requestAndParseToken_Returns:
  assumes "requestAndParseToken d (c, tr) = Returns e (c', tr')"
  shows "tr' = tr @ [(Acquisition, tokenCall c)]"
    and "Credentials c' = Credentials c" and "Options c' = Options c"
  using requestAndParseToken_trace [of d c tr] requestAndParseToken_keeps [of d c tr] assms
  by simp_all

lemma requestAndParseToken_final:
  obtains c' where "final (requestAndParseToken d (c, tr)) = (c', tr @ [(Acquisition, tokenCall c)])"
    and "Credentials c' = Credentials c" and "Options c' = Options c"
  using requestAndParseToken_trace [of d c tr] requestAndParseToken_keeps [of d c tr]
  by (cases "final (requestAndParseToken d (c, tr))") simp

text \<open>The dispatcher, read from the outcome of its opening check.\<close>

lemma request_via_preflight:
  "request d method url bdy s =
     (case preflight d s of
        Panic s1 \<Rightarrow> Panic s1
      | Returns (Some err) s1 \<Rightarrow> Returns (None, Some err) s1
      | Returns None (c1, tr1) \<Rightarrow>
          if unauthorized (snd (sendRequest d tr1 (resourceCall c1 method url bdy))) then
            (case requestAndParseToken d (c1, tr1 @ [(Resource, resourceCall c1 method url bdy)]) of
               Panic s3 \<Rightarrow> Panic s3
             | Returns (Some err') s3 \<Rightarrow> Returns (None, Some err') s3
             | Returns None (c3, tr3) \<Rightarrow>
                 Returns (sendRequest d tr3 (resourceCall c3 method url bdy))
                   (c3, tr3 @ [(Resource, resourceCall c3 method url bdy)]))
          else Returns (sendRequest d tr1 (resourceCall c1 method url bdy))
                 (c1, tr1 @ [(Resource, resourceCall c1 method url bdy)]))"
  unfolding request_def preflight_def send_def
  by (simp add: Let_def split: outcome.split option.split prod.split)

lemma preflight_fresh:
  "\<not> AccessTokenExpired d tr (Auth c) \<Longrightarrow> preflight d (c, tr) = Returns None (c, tr)"
  by (simp add: preflight_def)

lemma preflight_stale:
  "AccessTokenExpired d tr (Auth c) \<Longrightarrow> preflight d (c, tr) = requestAndParseToken d (c, tr)"
  by (simp add: preflight_def)

lemma request_preflight_stops:
  assumes "preflight d s = Panic s1 \<or> preflight d s = Returns (Some e) s1"
  shows "final (request d method url bdy s) = s1"
  using assms by (auto simp add: request_via_preflight)

text \<open>After a successful check, the first call is the resource request.\<close>

lemma request_after_preflight:
  assumes "preflight d s = Returns None (c1, tr1)"
  obtains c' rest where
    "final (request d method url bdy s) = (c', tr1 @ (Resource, resourceCall c1 method url bdy) # rest)"
    and "Credentials c' = Credentials c1" and "Options c' = Options c1"
    and "Auth c' = Auth c1 \<or> (Acquisition, tokenCall c1) \<in> set rest"
proof (cases "unauthorized (snd (sendRequest d tr1 (resourceCall c1 method url bdy)))")
  case False
  with assms have "final (request d method url bdy s)
      = (c1, tr1 @ (Resource, resourceCall c1 method url bdy) # [])"
    by (simp add: request_via_preflight)
  then show ?thesis using that by blast
next
  case True
  let ?tr2 = "tr1 @ [(Resource, resourceCall c1 method url bdy)]"
  obtain c3 where c3: "final (requestAndParseToken d (c1, ?tr2)) = (c3, ?tr2 @ [(Acquisition, tokenCall c1)])"
    and keep: "Credentials c3 = Credentials c1" "Options c3 = Options c1"
    by (rule requestAndParseToken_final)
  have "\<exists>rest'. final (request d method url bdy s)
          = (c3, tr1 @ (Resource, resourceCall c1 method url bdy) # (Acquisition, tokenCall c1) # rest')"
  proof (cases "requestAndParseToken d (c1, ?tr2)")
    case (Panic s3)
    with assms True c3 show ?thesis by (simp add: request_via_preflight)
  next
    case (Returns e s3)
    with assms True c3 show ?thesis
      by (cases e) (simp_all add: request_via_preflight)
  qed
  then show ?thesis using that keep by fastforce
qed

text \<open>The frame of each method.\<close>

lemma frame_final: "final out = final out' \<Longrightarrow> frame s out = frame s out'"
  by (simp add: frame_def issued_def)

lemma frame_unchanged: "final out = s \<Longrightarrow> frame s out"
  by (simp add: frame_def)

lemma frame_requestAndParseToken: "frame s (requestAndParseToken d s)"
proof (cases s)
  case (Pair c tr)
  obtain c' where "final (requestAndParseToken d (c, tr)) = (c', tr @ [(Acquisition, tokenCall c)])"
    and "Credentials c' = Credentials c" and "Options c' = Options c"
    by (rule requestAndParseToken_final)
  then show ?thesis using Pair by (simp add: frame_def issued_def)
qed

lemma frame_request: "frame s (request d method url bdy s)"
proof (cases s)
  case (Pair c tr)
  show ?thesis
  proof (cases "AccessTokenExpired d tr (Auth c)")
    case False
    then have "preflight d s = Returns None (c, tr)" using Pair by (simp add: preflight_fresh)
    then obtain c' rest where
      "final (request d method url bdy s) = (c', tr @ (Resource, resourceCall c method url bdy) # rest)"
      and "Credentials c' = Credentials c" and "Options c' = Options c"
      and "Auth c' = Auth c \<or> (Acquisition, tokenCall c) \<in> set rest"
      by (rule request_after_preflight)
    then show ?thesis using Pair by (auto simp add: frame_def issued_def)
  next
    case True
    then have pre: "preflight d s = requestAndParseToken d s" using Pair by (simp add: preflight_stale)
    obtain c1 where fin: "final (requestAndParseToken d (c, tr)) = (c1, tr @ [(Acquisition, tokenCall c)])"
      and keep: "Credentials c1 = Credentials c" "Options c1 = Options c"
      by (rule requestAndParseToken_final)
    show ?thesis
    proof (cases "preflight d s = Returns None (c1, tr @ [(Acquisition, tokenCall c)])")
      case True
      then obtain c' rest where
        "final (request d method url bdy s)
           = (c', (tr @ [(Acquisition, tokenCall c)]) @ (Resource, resourceCall c1 method url bdy) # rest)"
        and "Credentials c' = Credentials c1" and "Options c' = Options c1"
        by (rule request_after_preflight)
      then show ?thesis using Pair keep by (simp add: frame_def issued_def)
    next
      case False
      have "final (request d method url bdy s) = final (requestAndParseToken d s)"
      proof (cases "requestAndParseToken d s")
        case (Panic s1)
        then show ?thesis using pre request_preflight_stops [of d s s1] by simp
      next
        case (Returns e s1)
        with False pre fin Pair obtain err where "e = Some err" by (cases e) auto
        then show ?thesis using Returns pre request_preflight_stops [of d s s1 err] by simp
      qed
      then show ?thesis using frame_final frame_requestAndParseToken by blast
    qed
  qed
qed

lemma final_requestAndParseResponse:
  "final (requestAndParseResponse d method url bdy resObj s) = final (request d method url bdy s)"
  by (simp add: requestAndParseResponse_def split: outcome.split option.split prod.split)

lemma final_returnRes: "final (returnRes x) = final x"
  by (simp add: returnRes_def split: outcome.split prod.split)

lemma frame_requestAndParseResponse: "frame s (requestAndParseResponse d method url bdy resObj s)"
  by (simp add: frame_final [OF final_requestAndParseResponse] frame_request)

lemma frame_endpoint: "frame s (returnRes (requestAndParseResponse d method url bdy resObj s))"
  by (simp add: frame_final [OF final_returnRes] frame_requestAndParseResponse)

lemma frame_GetAuth: "frame s (GetAuth d s)"
proof -
  have "final (GetAuth d s) = final (requestAndParseToken d s)"
    by (simp add: GetAuth_def split: outcome.split option.split)
  then show ?thesis by (simp add: frame_final [of "GetAuth d s" "requestAndParseToken d s"] frame_requestAndParseToken)
qed

lemma frame_UpdateProject: "frame s (UpdateProject d project s)"
  by (cases project) (simp_all add: UpdateProject_def frame_endpoint frame_unchanged)

text \<open>The client that each method leaves is the replay of its calls.\<close>

lemma replay_no_acquisition:
  "Acquisition \<notin> fst ` set calls \<Longrightarrow> replay d c tr calls = c"
  by (induction d c tr calls rule: replay.induct) auto

lemma replayed_final: "final out = final out' \<Longrightarrow> replayed d s out = replayed d s out'"
  by (simp add: replayed_def issued_def)

lemma replayed_unchanged: "final out = s \<Longrightarrow> replayed d s out"
  by (simp add: replayed_def issued_def)

lemma replayed_extends:
  assumes "final out = (c', tr @ calls)" and "c' = replay d c tr calls"
  shows "replayed d (c, tr) out"
  using assms by (simp add: replayed_def issued_def)

lemma replayed_requestAndParseToken: "replayed d s (requestAndParseToken d s)"
proof (cases s)
  case (Pair c tr)
  have "snd (final (requestAndParseToken d (c, tr))) = tr @ [(Acquisition, tokenCall c)]"
    by (rule requestAndParseToken_trace)
  then have "final (requestAndParseToken d (c, tr))
      = (fst (final (requestAndParseToken d (c, tr))), tr @ [(Acquisition, tokenCall c)])"
    by (metis prod.collapse)
  then show ?thesis unfolding Pair by (rule replayed_extends) simp
qed

lemma request_after_preflight_replay:
  assumes "preflight d s = Returns None (c1, tr1)"
  shows "\<exists>calls. final (request d method url bdy s) = (replay d c1 tr1 calls, tr1 @ calls)"
proof (cases "unauthorized (snd (sendRequest d tr1 (resourceCall c1 method url bdy)))")
  case False
  with assms have "final (request d method url bdy s)
      = (replay d c1 tr1 [(Resource, resourceCall c1 method url bdy)],
         tr1 @ [(Resource, resourceCall c1 method url bdy)])"
    by (simp add: request_via_preflight)
  then show ?thesis by blast
next
  case True
  let ?R = "(Resource, resourceCall c1 method url bdy)"
  let ?A = "(Acquisition, tokenCall c1)"
  let ?c3 = "fst (final (requestAndParseToken d (c1, tr1 @ [?R])))"
  have tr: "snd (final (requestAndParseToken d (c1, tr1 @ [?R]))) = (tr1 @ [?R]) @ [?A]"
    by (rule requestAndParseToken_trace)
  show ?thesis
  proof (cases "requestAndParseToken d (c1, tr1 @ [?R])")
    case (Panic s3)
    with assms True tr have "final (request d method url bdy s)
        = (replay d c1 tr1 [?R, ?A], tr1 @ [?R, ?A])"
      by (cases s3) (simp add: request_via_preflight)
    then show ?thesis by blast
  next
    case (Returns e s3)
    obtain c3 tr3 where s3: "s3 = (c3, tr3)" by (cases s3)
    show ?thesis
    proof (cases e)
      case (Some err)
      with assms True tr Returns s3 have "final (request d method url bdy s)
          = (replay d c1 tr1 [?R, ?A], tr1 @ [?R, ?A])"
        by (simp add: request_via_preflight)
      then show ?thesis by blast
    next
      case None
      with assms True tr Returns s3 have "final (request d method url bdy s)
          = (replay d c1 tr1 [?R, ?A, (Resource, resourceCall c3 method url bdy)],
             tr1 @ [?R, ?A, (Resource, resourceCall c3 method url bdy)])"
        by (simp add: request_via_preflight)
      then show ?thesis by blast
    qed
  qed
qed

lemma replayed_request: "replayed d s (request d method url bdy s)"
proof (cases s)
  case (Pair c tr)
  show ?thesis
  proof (cases "AccessTokenExpired d tr (Auth c)")
    case False
    then have "preflight d s = Returns None (c, tr)" using Pair by (simp add: preflight_fresh)
    then obtain calls where
      "final (request d method url bdy s) = (replay d c tr calls, tr @ calls)"
      using request_after_preflight_replay by blast
    then show ?thesis unfolding Pair by (rule replayed_extends) simp
  next
    case True
    then have pre: "preflight d s = requestAndParseToken d s" using Pair by (simp add: preflight_stale)
    let ?A = "(Acquisition, tokenCall c)"
    let ?c1 = "fst (final (requestAndParseToken d (c, tr)))"
    have fin: "final (requestAndParseToken d s) = (?c1, tr @ [?A])"
      using requestAndParseToken_trace [of d c tr] Pair by (metis prod.collapse)
    show ?thesis
    proof (cases "preflight d s = Returns None (?c1, tr @ [?A])")
      case True
      then obtain calls where
        "final (request d method url bdy s) = (replay d ?c1 (tr @ [?A]) calls, (tr @ [?A]) @ calls)"
        using request_after_preflight_replay by blast
      then have "final (request d method url bdy s) = (replay d c tr (?A # calls), tr @ (?A # calls))"
        by simp
      then show ?thesis unfolding Pair by (rule replayed_extends) simp
    next
      case False
      have "final (request d method url bdy s) = final (requestAndParseToken d s)"
      proof (cases "requestAndParseToken d s")
        case (Panic s1)
        then show ?thesis using pre request_preflight_stops [of d s s1] by simp
      next
        case (Returns e s1)
        with False pre fin obtain err where "e = Some err" by (cases e) auto
        then show ?thesis using Returns pre request_preflight_stops [of d s s1 err] by simp
      qed
      then show ?thesis
        by (simp add: replayed_final [of "request d method url bdy s" "requestAndParseToken d s"]
            replayed_requestAndParseToken)
    qed
  qed
qed

lemma replayed_requestAndParseResponse:
  "replayed d s (requestAndParseResponse d method url bdy resObj s)"
  by (simp add: replayed_final [OF final_requestAndParseResponse] replayed_request)

lemma replayed_endpoint:
  "replayed d s (returnRes (requestAndParseResponse d method url bdy resObj s))"
  by (simp add: replayed_final [OF final_returnRes] replayed_requestAndParseResponse)

lemma final_GetAuth: "final (GetAuth d s) = final (requestAndParseToken d s)"
  by (simp add: GetAuth_def split: outcome.split option.split)

lemma replayed_GetAuth: "replayed d s (GetAuth d s)"
  by (simp add: replayed_final [OF final_GetAuth] replayed_requestAndParseToken)

lemma replayed_UpdateProject: "replayed d s (UpdateProject d project s)"
  by (cases project) (simp_all add: UpdateProject_def replayed_endpoint replayed_unchanged)

lemma replayed_no_acquisition:
  assumes "replayed d s out" and "Acquisition \<notin> fst ` set (issued s out)"
  shows "fst (final out) = fst s"
  using assms by (simp add: replayed_def replay_no_acquisition)

text \<open>Results and panics of the endpoint methods.\<close>

lemma resultNonNil_returnRes: "resultNonNil (returnRes x)"
  by (cases x) (auto simp add: returnRes_def)

lemma requestAndParseToken_no_panic:
  assumes "sendRequest d tr (tokenCall c) \<noteq> (None, None)"
  shows "\<exists>e s1. requestAndParseToken d (c, tr) = Returns e s1"
  using assms
  by (cases "sendRequest d tr (tokenCall c)")
     (auto simp add: requestAndParseToken_def send_def Let_def split: option.split prod.split)

lemma preflight_no_panic:
  assumes "\<forall>tr rq. sendRequest d tr rq \<noteq> (None, None)"
  shows "\<exists>e s1. preflight d s = Returns e s1"
proof (cases s)
  case (Pair c tr)
  then show ?thesis
    using assms requestAndParseToken_no_panic [of d tr c] by (simp add: preflight_def)
qed

lemma request_no_panic:
  assumes wb: "\<forall>tr rq. sendRequest d tr rq \<noteq> (None, None)"
  shows "\<exists>v s1. request d method url bdy s = Returns v s1 \<and> v \<noteq> (None, None)"
proof -
  obtain e s1 where pre: "preflight d s = Returns e s1"
    using preflight_no_panic [OF wb] by blast
  show ?thesis
  proof (cases e)
    case (Some err)
    then show ?thesis using pre by (simp add: request_via_preflight)
  next
    case None
    obtain c1 tr1 where s1: "s1 = (c1, tr1)" by (cases s1)
    let ?rq = "resourceCall c1 method url bdy"
    show ?thesis
    proof (cases "unauthorized (snd (sendRequest d tr1 ?rq))")
      case False
      then show ?thesis using pre None s1 wb by (simp add: request_via_preflight)
    next
      case True
      obtain e2 s3 where again: "requestAndParseToken d (c1, tr1 @ [(Resource, ?rq)]) = Returns e2 s3"
        using requestAndParseToken_no_panic wb by blast
      obtain c3 tr3 where s3: "s3 = (c3, tr3)" by (cases s3)
      show ?thesis
        using pre None s1 True again s3 wb
        by (cases e2) (simp_all add: request_via_preflight)
    qed
  qed
qed

lemma requestAndParseResponse_no_panic:
  assumes wb: "\<forall>tr rq. sendRequest d tr rq \<noteq> (None, None)"
  shows "\<exists>v s1. requestAndParseResponse d method url bdy resObj s = Returns v s1"
proof -
  obtain ar err s1 where "request d method url bdy s = Returns (ar, err) s1" and "(ar, err) \<noteq> (None, None)"
    using request_no_panic [OF wb] by (metis surj_pair)
  then show ?thesis
    by (cases ar; cases err) (auto simp add: requestAndParseResponse_def split: prod.split)
qed

lemma returnsNonNil_endpoint:
  assumes wb: "\<forall>tr rq. sendRequest d tr rq \<noteq> (None, None)"
  shows "returnsNonNil (returnRes (requestAndParseResponse d method url bdy resObj s))"
proof -
  obtain v s1 where "requestAndParseResponse d method url bdy resObj s = Returns v s1"
    using requestAndParseResponse_no_panic [OF wb] by blast
  then show ?thesis by (cases v) (simp add: returnRes_def)
qed

lemma endpoint_error_body:
  assumes "request d method url bdy s = Returns (Some a, Some e) s1"
  shows "returnRes (requestAndParseResponse d method url bdy resObj s)
           = Returns (Some (fst (unmarshalResult d (Body a) resObj)), Some e) s1"
  using assms by (simp add: requestAndParseResponse_def returnRes_def)

subsection \<open>Construction\<close>

text \<open>
  C7. A client constructed without options (\<^verbatim>\<open>options == nil\<close>) has the API base URL
  \<^verbatim>\<open>https://api.researchnow.com/sample/v1\<close> and the auth URL
  \<^verbatim>\<open>https://api.researchnow.com/auth/v1/token/password\<close>.
\<close>

theorem NewClient_default_urls:
  "APIBaseURL (Options (NewClient clientID username passsword None))
     = ''https://api.researchnow.com/sample/v1''
   \<and> AuthURL (Options (NewClient clientID username passsword None))
     = ''https://api.researchnow.com/auth/v1/token/password''"
  by (simp add: NewClient_def defaultAPIBaseURL_def defaultAuthURL_def)

text \<open>Options that are given are taken as they are, empty strings included.\<close>

lemma NewClient_given_options:
  "Options (NewClient clientID username passsword (Some opts)) = opts"
  by (simp add: NewClient_def)

subsection \<open>The check before the first send\<close>

text \<open>
  C2. If the expiry test says that the cached token is not expired, the first call that
  \<^verbatim>\<open>request\<close> makes is the resource request: no acquisition precedes it. If the test says
  that the token is expired (or was never acquired), the first call is one acquisition;
  when it succeeds the resource request is the second call, so exactly one acquisition
  precedes it, and when it fails or panics it stays the only call.
\<close>

theorem request_acquisition_precedes:
  "(\<not> AccessTokenExpired d tr (Auth c) \<longrightarrow>
      (\<exists>rest. issued (c, tr) (request d method url bdy (c, tr))
                 = (Resource, resourceCall c method url bdy) # rest))
   \<and> (AccessTokenExpired d tr (Auth c) \<longrightarrow>
      (case requestAndParseToken d (c, tr) of
         Returns None (c1, tr1) \<Rightarrow>
           (\<exists>rest. issued (c, tr) (request d method url bdy (c, tr))
                     = (Acquisition, tokenCall c) # (Resource, resourceCall c1 method url bdy) # rest)
       | Returns (Some e) s1 \<Rightarrow>
           issued (c, tr) (request d method url bdy (c, tr)) = [(Acquisition, tokenCall c)]
       | Panic s1 \<Rightarrow>
           issued (c, tr) (request d method url bdy (c, tr)) = [(Acquisition, tokenCall c)]))"
proof (intro conjI impI)
  assume "\<not> AccessTokenExpired d tr (Auth c)"
  then have "preflight d (c, tr) = Returns None (c, tr)" by (rule preflight_fresh)
  then obtain c' rest where
    "final (request d method url bdy (c, tr)) = (c', tr @ (Resource, resourceCall c method url bdy) # rest)"
    by (rule request_after_preflight)
  then show "\<exists>rest. issued (c, tr) (request d method url bdy (c, tr))
                 = (Resource, resourceCall c method url bdy) # rest"
    by (simp add: issued_def)
next
  assume stale: "AccessTokenExpired d tr (Auth c)"
  then have pre: "preflight d (c, tr) = requestAndParseToken d (c, tr)" by (rule preflight_stale)
  show "case requestAndParseToken d (c, tr) of
         Returns None (c1, tr1) \<Rightarrow>
           (\<exists>rest. issued (c, tr) (request d method url bdy (c, tr))
                     = (Acquisition, tokenCall c) # (Resource, resourceCall c1 method url bdy) # rest)
       | Returns (Some e) s1 \<Rightarrow>
           issued (c, tr) (request d method url bdy (c, tr)) = [(Acquisition, tokenCall c)]
       | Panic s1 \<Rightarrow>
           issued (c, tr) (request d method url bdy (c, tr)) = [(Acquisition, tokenCall c)]"
  proof (cases "requestAndParseToken d (c, tr)")
    case (Panic s1)
    then have "final (request d method url bdy (c, tr)) = s1"
      using pre request_preflight_stops [of d "(c, tr)" s1] by simp
    moreover have "snd s1 = tr @ [(Acquisition, tokenCall c)]"
      using requestAndParseToken_trace [of d c tr] Panic by simp
    ultimately show ?thesis using Panic by (simp add: issued_def)
  next
    case (Returns e s1)
    have tr1: "snd s1 = tr @ [(Acquisition, tokenCall c)]"
      using requestAndParseToken_trace [of d c tr] Returns by simp
    show ?thesis
    proof (cases e)
      case (Some err)
      then have "final (request d method url bdy (c, tr)) = s1"
        using pre Returns request_preflight_stops [of d "(c, tr)" s1 err] by simp
      then show ?thesis using Returns Some tr1 by (simp add: issued_def)
    next
      case None
      obtain c1 tr1' where s1: "s1 = (c1, tr1')" by (cases s1)
      then have "preflight d (c, tr) = Returns None (c1, tr1')"
        using pre Returns None by simp
      then obtain c' rest where
        "final (request d method url bdy (c, tr))
           = (c', tr1' @ (Resource, resourceCall c1 method url bdy) # rest)"
        by (rule request_after_preflight)
      then show ?thesis using Returns None s1 tr1 by (simp add: issued_def)
    qed
  qed
qed

text \<open>The theorem at an unexpired and at a never acquired token.\<close>

theorem request_acquisition_precedes_witness:
  "\<not> AccessTokenExpired (scripted [ok ''{}'']) [] (Auth warmClient)
   \<and> issued (warmClient, []) (request (scripted [ok ''{}'']) ''GET'' ''/countries'' NilBody (warmClient, []))
       = [(Resource, resourceCall warmClient ''GET'' ''/countries'' NilBody)]
   \<and> AccessTokenExpired (scripted [ok tokenBody, ok ''{}'']) [] (Auth freshClient)
   \<and> issued (freshClient, [])
         (request (scripted [ok tokenBody, ok ''{}'']) ''GET'' ''/countries'' NilBody (freshClient, []))
       = [(Acquisition, tokenCall freshClient),
          (Resource, resourceCall firstClient ''GET'' ''/countries'' NilBody)]"
proof -
  have h1: "\<not> AccessTokenExpired (scripted [ok ''{}'']) [] (Auth warmClient)"
    by (simp add: sample_defs)
  have h2: "AccessTokenExpired (scripted [ok tokenBody, ok ''{}'']) [] (Auth freshClient)"
    by (simp add: sample_defs)
  have r1: "request (scripted [ok ''{}'']) ''GET'' ''/countries'' NilBody (warmClient, [])
            = Returns (Some \<lparr>Body = ''{}''\<rparr>, None)
                (warmClient, [(Resource, resourceCall warmClient ''GET'' ''/countries'' NilBody)])"
    by (simp add: request_def model_defs sample_defs)
  have r2: "request (scripted [ok tokenBody, ok ''{}'']) ''GET'' ''/countries'' NilBody (freshClient, [])
            = Returns (Some \<lparr>Body = ''{}''\<rparr>, None)
                (firstClient,
                 [(Acquisition, tokenCall freshClient),
                  (Resource, resourceCall firstClient ''GET'' ''/countries'' NilBody)])"
    by (simp add: request_def model_defs sample_defs)
  show ?thesis
    using h1 h2 r1 r2
      request_acquisition_precedes [of "scripted [ok ''{}'']" "[]" warmClient
        "''GET''" "''/countries''" NilBody]
      request_acquisition_precedes [of "scripted [ok tokenBody, ok ''{}'']" "[]" freshClient
        "''GET''" "''/countries''" NilBody]
    by (simp add: issued_def)
qed

text \<open>
  C3. When the token is expired and the acquisition that \<^verbatim>\<open>request\<close> starts with returns
  an error, whatever its cause, \<^verbatim>\<open>request\<close> returns a nil response with that same error,
  and the acquisition is the only call made: no resource request is sent.
\<close>

theorem request_preflight_failure:
  assumes "AccessTokenExpired d tr (Auth c)"
      and "requestAndParseToken d (c, tr) = Returns (Some e) s1"
  shows "request d method url bdy (c, tr) = Returns (None, Some e) s1
         \<and> snd s1 = tr @ [(Acquisition, tokenCall c)]"
proof -
  obtain c1 tr1 where s1: "s1 = (c1, tr1)" by (cases s1)
  have "tr1 = tr @ [(Acquisition, tokenCall c)]"
    using requestAndParseToken_Returns(1) [of d c tr "Some e" c1 tr1] assms(2) s1 by simp
  moreover have "request d method url bdy (c, tr) = Returns (None, Some e) s1"
    using assms by (simp add: request_via_preflight preflight_def)
  ultimately show ?thesis using s1 by simp
qed

theorem request_preflight_failure_witness:
  "AccessTokenExpired (scripted [status 503 ''busy'']) [] (Auth freshClient)
   \<and> request (scripted [status 503 ''busy'']) ''GET'' ''/countries'' NilBody (freshClient, [])
       = Returns (None, Some (ErrorResponse 503 ''busy''))
           (freshClient, [(Acquisition, tokenCall freshClient)])"
proof -
  have h1: "AccessTokenExpired (scripted [status 503 ''busy'']) [] (Auth freshClient)"
    by (simp add: sample_defs)
  have h2: "requestAndParseToken (scripted [status 503 ''busy'']) (freshClient, [])
              = Returns (Some (ErrorResponse 503 ''busy''))
                  (freshClient, [(Acquisition, tokenCall freshClient)])"
    by (simp add: model_defs sample_defs)
  show ?thesis
    using h1 request_preflight_failure [OF h1 h2, of "''GET''" "''/countries''" NilBody]
    by simp
qed

text \<open>
  C6 (as amended). When the acquisition call succeeds and \<^verbatim>\<open>json.Unmarshal\<close> reports an
  error on its body, \<^verbatim>\<open>requestAndParseToken\<close> returns that error, and a \<^verbatim>\<open>request\<close> that
  started with this acquisition returns it as well without sending a resource request.
  Nothing is said of a body that decodes without error and carries no token.
\<close>

theorem requestAndParseToken_decoding_error:
  assumes "sendRequest d tr (tokenCall c) = (Some a, None)"
      and "unmarshalToken d (Body a) (Auth c) = (auth1, Some e)"
  shows "requestAndParseToken d (c, tr)
           = Returns (Some e) (c\<lparr>Auth := auth1\<rparr>, tr @ [(Acquisition, tokenCall c)])
         \<and> (AccessTokenExpired d tr (Auth c) \<longrightarrow>
              request d method url bdy (c, tr)
                = Returns (None, Some e) (c\<lparr>Auth := auth1\<rparr>, tr @ [(Acquisition, tokenCall c)]))"
proof -
  have "requestAndParseToken d (c, tr)
           = Returns (Some e) (c\<lparr>Auth := auth1\<rparr>, tr @ [(Acquisition, tokenCall c)])"
    using assms by (simp add: requestAndParseToken_def send_def)
  then show ?thesis by (simp add: request_via_preflight preflight_def)
qed

theorem requestAndParseToken_decoding_error_witness:
  "sendRequest (scripted [ok ''<html>'']) [] (tokenCall freshClient) = (Some \<lparr>Body = ''<html>''\<rparr>, None)
   \<and> AccessTokenExpired (scripted [ok ''<html>'']) [] (Auth freshClient)
   \<and> request (scripted [ok ''<html>'']) ''GET'' ''/countries'' NilBody (freshClient, [])
       = Returns (None, Some (OtherError ''invalid character''))
           (freshClient, [(Acquisition, tokenCall freshClient)])"
proof -
  let ?d = "scripted [ok ''<html>'']"
  have h1: "sendRequest ?d [] (tokenCall freshClient) = (Some \<lparr>Body = ''<html>''\<rparr>, None)"
    by (simp add: sample_defs)
  have h2: "unmarshalToken ?d (Body \<lparr>Body = ''<html>''\<rparr>) (Auth freshClient)
              = (Auth freshClient, Some (OtherError ''invalid character''))"
    by (simp add: sample_defs)
  have h3: "AccessTokenExpired ?d [] (Auth freshClient)"
    by (simp add: sample_defs)
  show ?thesis
    using h1 h3 requestAndParseToken_decoding_error [OF h1 h2, of "''GET''" "''/countries''" NilBody]
    by simp
qed

text \<open>
  The acquisition is answered by the empty JSON object, which has no token member and
  which the decoder accepts: no error is returned, the token stays empty, and the
  resource request is sent with it.
\<close>

theorem requestAndParseToken_decoding_error_counterexample:
  "sendRequest (scripted [ok ''{}'', ok ''{}'']) [] (tokenCall freshClient)
     = (Some \<lparr>Body = ''{}''\<rparr>, None)
   \<and> requestAndParseToken (scripted [ok ''{}'', ok ''{}'']) (freshClient, [])
       = Returns None (blankClient, [(Acquisition, tokenCall freshClient)])
   \<and> request (scripted [ok ''{}'', ok ''{}'']) ''GET'' ''/countries'' NilBody (freshClient, [])
       = Returns (Some \<lparr>Body = ''{}''\<rparr>, None)
           (blankClient,
            [(Acquisition, tokenCall freshClient),
             (Resource, resourceCall blankClient ''GET'' ''/countries'' NilBody)])"
  by (simp add: request_def model_defs sample_defs)

subsection \<open>After the first send\<close>

text \<open>
  C4. When the first send fails with an error that is not a structured error of status
  401, \<^verbatim>\<open>request\<close> returns what the transport returned, response and error, and the
  resource request is the last call: no acquisition and no second send follow.
\<close>

theorem request_other_error_returned:
  assumes "preflight d s = Returns None (c1, tr1)"
      and "sendRequest d tr1 (resourceCall c1 method url bdy) = (ar, Some e)"
      and "\<not> unauthorized (Some e)"
  shows "request d method url bdy s
           = Returns (ar, Some e) (c1, tr1 @ [(Resource, resourceCall c1 method url bdy)])"
  using assms by (simp add: request_via_preflight)

theorem request_other_error_returned_witness:
  "\<not> unauthorized (Some (ErrorResponse 403 ''{}''))
   \<and> request (scripted [status 403 ''{}'']) ''GET'' ''/projects'' NilBody (warmClient, [])
       = Returns (Some \<lparr>Body = ''{}''\<rparr>, Some (ErrorResponse 403 ''{}''))
           (warmClient, [(Resource, resourceCall warmClient ''GET'' ''/projects'' NilBody)])"
proof -
  have h1: "preflight (scripted [status 403 ''{}'']) (warmClient, []) = Returns None (warmClient, [])"
    by (simp add: model_defs sample_defs)
  have h2: "sendRequest (scripted [status 403 ''{}'']) []
              (resourceCall warmClient ''GET'' ''/projects'' NilBody)
            = (Some \<lparr>Body = ''{}''\<rparr>, Some (ErrorResponse 403 ''{}''))"
    by (simp add: sample_defs)
  have h3: "\<not> unauthorized (Some (ErrorResponse 403 ''{}''))"
    by (simp add: StatusUnauthorized_def)
  show ?thesis
    using h3 request_other_error_returned [OF h1 h2 h3] by simp
qed

text \<open>
  C1 (as amended). When the first send fails with a structured error of status 401 and
  the acquisition that follows succeeds, the calls after the first send are that one
  acquisition and one further resource request, which differs from the first in the
  token only; what the transport answers to it, success or failure, a second 401
  included, is returned unchanged, and nothing is sent after it.
\<close>

theorem request_retry_once:
  assumes "preflight d s = Returns None (c1, tr1)"
      and "sendRequest d tr1 (resourceCall c1 method url bdy) = (ar, Some e1)"
      and "unauthorized (Some e1)"
      and "requestAndParseToken d (c1, tr1 @ [(Resource, resourceCall c1 method url bdy)])
             = Returns None (c3, tr3)"
  shows "tr3 = tr1 @ [(Resource, resourceCall c1 method url bdy), (Acquisition, tokenCall c1)]
         \<and> resourceCall c3 method url bdy
             = (resourceCall c1 method url bdy)\<lparr>accessToken := AccessToken (Auth c3)\<rparr>
         \<and> request d method url bdy s
             = Returns (sendRequest d tr3 (resourceCall c3 method url bdy))
                 (c3, tr3 @ [(Resource, resourceCall c3 method url bdy)])"
proof -
  have "tr3 = (tr1 @ [(Resource, resourceCall c1 method url bdy)]) @ [(Acquisition, tokenCall c1)]"
    using requestAndParseToken_Returns(1) assms(4) by blast
  moreover have "Options c3 = Options c1"
    using requestAndParseToken_Returns(3) assms(4) by blast
  moreover have "request d method url bdy s
             = Returns (sendRequest d tr3 (resourceCall c3 method url bdy))
                 (c3, tr3 @ [(Resource, resourceCall c3 method url bdy)])"
    using assms by (simp add: request_via_preflight)
  ultimately show ?thesis by (simp add: resourceCall_def)
qed

theorem request_retry_once_witness:
  "unauthorized (Some (ErrorResponse 401 ''{}''))
   \<and> request (scripted [status 401 ''{}'', ok tokenBody, status 401 ''again''])
         ''GET'' ''/projects'' NilBody (warmClient, [])
       = Returns (Some \<lparr>Body = ''again''\<rparr>, Some (ErrorResponse 401 ''again''))
           (renewedClient,
            [(Resource, resourceCall warmClient ''GET'' ''/projects'' NilBody),
             (Acquisition, tokenCall warmClient),
             (Resource, resourceCall renewedClient ''GET'' ''/projects'' NilBody)])"
proof -
  let ?d = "scripted [status 401 ''{}'', ok tokenBody, status 401 ''again'']"
  let ?tr3 = "[(Resource, resourceCall warmClient ''GET'' ''/projects'' NilBody),
               (Acquisition, tokenCall warmClient)]"
  have h1: "preflight ?d (warmClient, []) = Returns None (warmClient, [])"
    by (simp add: model_defs sample_defs)
  have h2: "sendRequest ?d [] (resourceCall warmClient ''GET'' ''/projects'' NilBody)
            = (Some \<lparr>Body = ''{}''\<rparr>, Some (ErrorResponse 401 ''{}''))"
    by (simp add: sample_defs)
  have h3: "unauthorized (Some (ErrorResponse 401 ''{}''))"
    by (simp add: StatusUnauthorized_def)
  have h4: "requestAndParseToken ?d
              (warmClient, [] @ [(Resource, resourceCall warmClient ''GET'' ''/projects'' NilBody)])
            = Returns None (renewedClient, ?tr3)"
    by (simp add: model_defs sample_defs renewedClient_def tokenBody_def)
  have h5: "sendRequest ?d ?tr3 (resourceCall renewedClient ''GET'' ''/projects'' NilBody)
            = (Some \<lparr>Body = ''again''\<rparr>, Some (ErrorResponse 401 ''again''))"
    by (simp add: sample_defs)
  show ?thesis
    using h3 h5 request_retry_once [OF h1 h2 h3 h4] by simp
qed

text \<open>
  The first send is answered with status 401 and the acquisition that follows is
  refused: the resource request is sent once only, and the error returned is the one
  of the acquisition.
\<close>

theorem request_retry_once_counterexample:
  "sendRequest (scripted [status 401 ''{}'', refused]) []
     (resourceCall warmClient ''GET'' ''/projects'' NilBody)
     = (Some \<lparr>Body = ''{}''\<rparr>, Some (ErrorResponse 401 ''{}''))
   \<and> request (scripted [status 401 ''{}'', refused]) ''GET'' ''/projects'' NilBody (warmClient, [])
       = Returns (None, Some (OtherError ''connection refused''))
           (warmClient,
            [(Resource, resourceCall warmClient ''GET'' ''/projects'' NilBody),
             (Acquisition, tokenCall warmClient)])"
  by (simp add: request_def model_defs sample_defs)

text \<open>
  C9. When the first send fails with a structured error of status 401 and the
  acquisition that follows returns an error, \<^verbatim>\<open>request\<close> returns a nil response with the
  error of the acquisition, not the 401, and the acquisition is the last call: the
  resource request is not sent again.
\<close>

theorem request_reacquisition_failure:
  assumes "preflight d s = Returns None (c1, tr1)"
      and "sendRequest d tr1 (resourceCall c1 method url bdy) = (ar, Some e1)"
      and "unauthorized (Some e1)"
      and "requestAndParseToken d (c1, tr1 @ [(Resource, resourceCall c1 method url bdy)])
             = Returns (Some e2) s3"
  shows "request d method url bdy s = Returns (None, Some e2) s3
         \<and> snd s3 = tr1 @ [(Resource, resourceCall c1 method url bdy), (Acquisition, tokenCall c1)]"
proof -
  obtain c3 tr3 where s3: "s3 = (c3, tr3)" by (cases s3)
  have "tr3 = (tr1 @ [(Resource, resourceCall c1 method url bdy)]) @ [(Acquisition, tokenCall c1)]"
    using requestAndParseToken_Returns(1) assms(4) s3 by blast
  moreover have "request d method url bdy s = Returns (None, Some e2) s3"
    using assms by (simp add: request_via_preflight)
  ultimately show ?thesis using s3 by simp
qed

theorem request_reacquisition_failure_witness:
  "unauthorized (Some (ErrorResponse 401 ''{}''))
   \<and> request (scripted [status 401 ''{}'', ok ''<html>'']) ''GET'' ''/projects'' NilBody
         (warmClient, [])
       = Returns (None, Some (OtherError ''invalid character''))
           (warmClient,
            [(Resource, resourceCall warmClient ''GET'' ''/projects'' NilBody),
             (Acquisition, tokenCall warmClient)])"
proof -
  let ?d = "scripted [status 401 ''{}'', ok ''<html>'']"
  have h1: "preflight ?d (warmClient, []) = Returns None (warmClient, [])"
    by (simp add: model_defs sample_defs)
  have h2: "sendRequest ?d [] (resourceCall warmClient ''GET'' ''/projects'' NilBody)
            = (Some \<lparr>Body = ''{}''\<rparr>, Some (ErrorResponse 401 ''{}''))"
    by (simp add: sample_defs)
  have h3: "unauthorized (Some (ErrorResponse 401 ''{}''))"
    by (simp add: StatusUnauthorized_def)
  have h4: "requestAndParseToken ?d
              (warmClient, [] @ [(Resource, resourceCall warmClient ''GET'' ''/projects'' NilBody)])
            = Returns (Some (OtherError ''invalid character''))
                (warmClient,
                 [(Resource, resourceCall warmClient ''GET'' ''/projects'' NilBody),
                  (Acquisition, tokenCall warmClient)])"
    by (simp add: model_defs sample_defs)
  show ?thesis
    using h3 request_reacquisition_failure [OF h1 h2 h3 h4] by simp
qed

subsection \<open>Parsing the response\<close>

text \<open>
  C5. When \<^verbatim>\<open>request\<close> returns an error together with a response,
  \<^verbatim>\<open>requestAndParseResponse\<close> decodes the body of that response into the result object,
  drops the error of the decoding, and returns the error of \<^verbatim>\<open>request\<close>.
\<close>

theorem requestAndParseResponse_error_body:
  assumes "request d method url bdy s = Returns (Some a, Some e) s1"
  shows "requestAndParseResponse d method url bdy resObj s
           = Returns (Some e, fst (unmarshalResult d (Body a) resObj)) s1"
  using assms by (simp add: requestAndParseResponse_def)

text \<open>An error body that does not decode, and one that does.\<close>

theorem requestAndParseResponse_error_body_witness:
  "snd (unmarshalResult (scripted [status 500 ''<html>'']) ''<html>'' []) \<noteq> None
   \<and> requestAndParseResponse (scripted [status 500 ''<html>'']) ''GET'' ''/projects'' NilBody []
         (warmClient, [])
       = Returns (Some (ErrorResponse 500 ''<html>''), [])
           (warmClient, [(Resource, resourceCall warmClient ''GET'' ''/projects'' NilBody)])
   \<and> requestAndParseResponse (scripted [status 403 deniedBody]) ''GET'' ''/projects'' NilBody []
         (warmClient, [])
       = Returns (Some (ErrorResponse 403 deniedBody), [(''detail'', ''denied'')])
           (warmClient, [(Resource, resourceCall warmClient ''GET'' ''/projects'' NilBody)])"
proof -
  have h1: "request (scripted [status 500 ''<html>'']) ''GET'' ''/projects'' NilBody (warmClient, [])
            = Returns (Some \<lparr>Body = ''<html>''\<rparr>, Some (ErrorResponse 500 ''<html>''))
                (warmClient, [(Resource, resourceCall warmClient ''GET'' ''/projects'' NilBody)])"
    by (simp add: request_def model_defs sample_defs)
  have h2: "request (scripted [status 403 deniedBody]) ''GET'' ''/projects'' NilBody (warmClient, [])
            = Returns (Some \<lparr>Body = deniedBody\<rparr>, Some (ErrorResponse 403 deniedBody))
                (warmClient, [(Resource, resourceCall warmClient ''GET'' ''/projects'' NilBody)])"
    by (simp add: request_def model_defs sample_defs)
  show ?thesis
    using requestAndParseResponse_error_body [OF h1, of "[]"]
      requestAndParseResponse_error_body [OF h2, of "[]"]
    by (simp add: scripted_def sampleUnmarshalResult_def deniedBody_def)
qed

subsection \<open>Endpoint methods\<close>

text \<open>
  C10. The result pointer that an endpoint method returns is never nil, with or
  without an error beside it. The methods do return, unless the transport hands back
  neither a response nor an error or \<^verbatim>\<open>UpdateProject\<close> is given a nil project. When
  \<^verbatim>\<open>request\<close> returned an error together with a response, the object returned is the
  zero value after decoding the body of that response into it.
\<close>

theorem endpoints_result_non_nil:
  "list_all resultNonNil
     (endpoints d project buy lineItem extProjectID extLineItemID action countryCode languageCode s)
   \<and> ((\<forall>tr rq. sendRequest d tr rq \<noteq> (None, None)) \<and> project \<noteq> None \<longrightarrow>
        list_all returnsNonNil
          (endpoints d project buy lineItem extProjectID extLineItemID action
             countryCode languageCode s))
   \<and> (request d method url bdy s = Returns (Some a, Some e) s1 \<longrightarrow>
        returnRes (requestAndParseResponse d method url bdy resObj s)
          = Returns (Some (fst (unmarshalResult d (Body a) resObj)), Some e) s1)"
proof (intro conjI impI)
  show "list_all resultNonNil
     (endpoints d project buy lineItem extProjectID extLineItemID action countryCode languageCode s)"
    unfolding endpoints_def endpoint_defs UpdateProject_def
    by (cases project) (simp_all add: resultNonNil_returnRes)
next
  assume "(\<forall>tr rq. sendRequest d tr rq \<noteq> (None, None)) \<and> project \<noteq> None"
  then obtain p where wb: "\<forall>tr rq. sendRequest d tr rq \<noteq> (None, None)" and p: "project = Some p"
    by auto
  show "list_all returnsNonNil
          (endpoints d project buy lineItem extProjectID extLineItemID action
             countryCode languageCode s)"
    unfolding endpoints_def endpoint_defs UpdateProject_def p
    by (simp add: returnsNonNil_endpoint [OF wb])
next
  assume "request d method url bdy s = Returns (Some a, Some e) s1"
  then show "returnRes (requestAndParseResponse d method url bdy resObj s)
          = Returns (Some (fst (unmarshalResult d (Body a) resObj)), Some e) s1"
    by (rule endpoint_error_body)
qed

theorem endpoints_result_non_nil_witness:
  "(\<forall>tr rq. sendRequest (scripted [status 403 deniedBody]) tr rq \<noteq> (None, None))
   \<and> list_all returnsNonNil
        (endpoints (scripted [status 403 deniedBody]) (Some \<lparr>ExtProjectID = ''p1''\<rparr>) [] None
           ''p1'' ''l1'' ''pause'' ''US'' ''en'' (warmClient, []))
   \<and> GetProjectBy (scripted [status 403 deniedBody]) ''p1'' (warmClient, [])
       = Returns (Some [(''detail'', ''denied'')], Some (ErrorResponse 403 deniedBody))
           (warmClient, [(Resource, resourceCall warmClient ''GET'' ''/projects/p1'' NilBody)])"
proof -
  let ?d = "scripted [status 403 deniedBody]"
  have wb: "\<forall>tr rq. sendRequest ?d tr rq \<noteq> (None, None)"
    by (simp add: scripted_def status_def refused_def)
  have h: "request ?d ''GET'' (''/projects/'' @ ''p1'') NilBody (warmClient, [])
            = Returns (Some \<lparr>Body = deniedBody\<rparr>, Some (ErrorResponse 403 deniedBody))
                (warmClient, [(Resource, resourceCall warmClient ''GET'' ''/projects/p1'' NilBody)])"
    by (simp add: request_def model_defs sample_defs)
  have z: "zeroValue ?d ProjectResponse = []"
    by (simp add: scripted_def)
  have u: "fst (unmarshalResult ?d deniedBody []) = [(''detail'', ''denied'')]"
    by (simp add: scripted_def sampleUnmarshalResult_def deniedBody_def)
  show ?thesis
    using wb h z u
      endpoints_result_non_nil [of ?d "Some \<lparr>ExtProjectID = ''p1''\<rparr>" "[]" None
        "''p1''" "''l1''" "''pause''" "''US''" "''en''" "(warmClient, [])"
        "''GET''" "''/projects/'' @ ''p1''" NilBody "\<lparr>Body = deniedBody\<rparr>"
        "ErrorResponse 403 deniedBody"
        "(warmClient, [(Resource, resourceCall warmClient ''GET'' ''/projects/p1'' NilBody)])"
        "[]"]
    by (simp add: GetProjectBy_def)
qed

subsection \<open>What the methods change\<close>

text \<open>
  C8. Token acquisition, \<^verbatim>\<open>GetAuth\<close>, the dispatcher, the parsing wrapper and the
  sixteen endpoint methods leave \<^verbatim>\<open>Credentials\<close> and \<^verbatim>\<open>Options\<close> of the client as they
  were. The client they leave is the initial client after the runs of
  \<^verbatim>\<open>requestAndParseToken\<close> that the trace records, in that order, and after nothing else:
  \<^verbatim>\<open>Auth\<close> is what the last of these runs left, or what it was when there was none.
\<close>

theorem client_frame:
  "frame s (requestAndParseToken d s)
   \<and> frame s (GetAuth d s)
   \<and> frame s (request d method url bdy s)
   \<and> frame s (requestAndParseResponse d method url bdy resObj s)
   \<and> list_all (frame s)
        (endpoints d project buy lineItem extProjectID extLineItemID action
           countryCode languageCode s)
   \<and> replayed d s (requestAndParseToken d s)
   \<and> replayed d s (GetAuth d s)
   \<and> replayed d s (request d method url bdy s)
   \<and> replayed d s (requestAndParseResponse d method url bdy resObj s)
   \<and> list_all (replayed d s)
        (endpoints d project buy lineItem extProjectID extLineItemID action
           countryCode languageCode s)"
proof -
  have "list_all (frame s)
        (endpoints d project buy lineItem extProjectID extLineItemID action
           countryCode languageCode s)"
    unfolding endpoints_def endpoint_defs
    by (simp add: frame_endpoint frame_UpdateProject)
  moreover have "list_all (replayed d s)
        (endpoints d project buy lineItem extProjectID extLineItemID action
           countryCode languageCode s)"
    unfolding endpoints_def endpoint_defs
    by (simp add: replayed_endpoint replayed_UpdateProject)
  ultimately show ?thesis
    by (simp add: frame_requestAndParseToken frame_GetAuth frame_request
        frame_requestAndParseResponse replayed_requestAndParseToken replayed_GetAuth
        replayed_request replayed_requestAndParseResponse)
qed

theorem client_frame_witness:
  "frame (warmClient, [])
     (request (scripted [status 401 ''{}'', ok tokenBody, ok ''{}'']) ''GET'' ''/projects'' NilBody
        (warmClient, []))
   \<and> replayed (scripted [status 401 ''{}'', ok tokenBody, ok ''{}'']) (warmClient, [])
       (request (scripted [status 401 ''{}'', ok tokenBody, ok ''{}'']) ''GET'' ''/projects'' NilBody
          (warmClient, []))
   \<and> fst (final (request (scripted [status 401 ''{}'', ok tokenBody, ok ''{}''])
                   ''GET'' ''/projects'' NilBody (warmClient, []))) = renewedClient
   \<and> replay (scripted [status 401 ''{}'', ok tokenBody, ok ''{}'']) warmClient []
         [(Resource, resourceCall warmClient ''GET'' ''/projects'' NilBody),
          (Acquisition, tokenCall warmClient),
          (Resource, resourceCall renewedClient ''GET'' ''/projects'' NilBody)] = renewedClient
   \<and> Credentials renewedClient = Credentials warmClient
   \<and> Options renewedClient = Options warmClient
   \<and> Auth renewedClient \<noteq> Auth warmClient"
proof -
  let ?d = "scripted [status 401 ''{}'', ok tokenBody, ok ''{}'']"
  have r: "request ?d ''GET'' ''/projects'' NilBody (warmClient, [])
        = Returns (Some \<lparr>Body = ''{}''\<rparr>, None)
            (renewedClient,
             [(Resource, resourceCall warmClient ''GET'' ''/projects'' NilBody),
              (Acquisition, tokenCall warmClient),
              (Resource, resourceCall renewedClient ''GET'' ''/projects'' NilBody)])"
    by (simp add: request_def model_defs sample_defs)
  have "replayed ?d (warmClient, []) (request ?d ''GET'' ''/projects'' NilBody (warmClient, []))"
    using client_frame [of "(warmClient, [])" ?d "''GET''" "''/projects''" NilBody] by simp
  then have p: "replay ?d warmClient []
         [(Resource, resourceCall warmClient ''GET'' ''/projects'' NilBody),
          (Acquisition, tokenCall warmClient),
          (Resource, resourceCall renewedClient ''GET'' ''/projects'' NilBody)] = renewedClient"
    using r by (simp add: replayed_def issued_def)
  show ?thesis
    using r p client_frame [of "(warmClient, [])" ?d "''GET''" "''/projects''" NilBody]
    by (simp add: renewedClient_def warmClient_def)
qed

end
